theory Spec2Isabelle
  imports Main "HOL-Library.Char_ord" "HOL-Library.Word"
begin

unbundle bit_operations_syntax

section \<open>Constants and types of http.h\<close>

text \<open>
  \<^verbatim>\<open>#define MAX_BUF 8124\<close>, \<^verbatim>\<open>#define TIMEOUT_DEFAULT 500\<close> (timer.h),
  \<^verbatim>\<open>#define MAXLINE 8192\<close> and \<^verbatim>\<open>#define SHORTLINE 512\<close> (http.c).
\<close>

definition MAX_BUF :: nat where "MAX_BUF = 8124"
definition TIMEOUT_DEFAULT :: int where "TIMEOUT_DEFAULT = 500"
definition MAXLINE :: nat where "MAXLINE = 8192"
definition SHORTLINE :: nat where "SHORTLINE = 512"

definition CR :: char where "CR = CHR 0x0D"
definition LF :: char where "LF = CHR 0x0A"
definition NUL :: char where "NUL = CHR 0x00"

text \<open>
  The parsers return an \<^verbatim>\<open>int\<close>: 0, \<^verbatim>\<open>EAGAIN\<close> or a member of
  \<^verbatim>\<open>enum http_parser_retcode\<close>. The model keeps apart which \<^verbatim>\<open>return\<close> statement was
  taken; \<open>rc_int\<close> gives the integer the caller sees. \<^verbatim>\<open>EAGAIN\<close> comes from the
  system's errno.h; the server is built on epoll(7), hence Linux, where it is 11.
\<close>

datatype retcode =
    OK
  | AGAIN
  | HTTP_PARSER_INVALID_METHOD
  | HTTP_PARSER_INVALID_REQUEST
  | HTTP_PARSER_INVALID_HEADER



text \<open>\<^verbatim>\<open>enum http_method\<close> and \<^verbatim>\<open>enum http_status\<close>.\<close>

definition HTTP_UNKNOWN :: int where "HTTP_UNKNOWN = 1"
definition HTTP_GET :: int where "HTTP_GET = 2"
definition HTTP_HEAD :: int where "HTTP_HEAD = 4"
definition HTTP_POST :: int where "HTTP_POST = 8"

definition HTTP_OK :: int where "HTTP_OK = 200"
definition HTTP_NOT_MODIFIED :: int where "HTTP_NOT_MODIFIED = 304"
definition HTTP_NOT_FOUND :: int where "HTTP_NOT_FOUND = 404"

text \<open>
  A \<^verbatim>\<open>void *\<close> that points into (or next to) the connection's buffer is its offset from
  \<^verbatim>\<open>&r->buf[0]\<close>; the null pointer is a value of its own. A field that
  \<^verbatim>\<open>init_http_request\<close> leaves uninitialised is an arbitrary value of its type.
\<close>

datatype ptr = NULL | Addr int

text \<open>\<^verbatim>\<open>http_header_t\<close>, without the embedded list node.\<close>

record http_header_t =
  key_start :: ptr
  key_end :: ptr
  value_start :: ptr
  value_end :: ptr

text \<open>
  \<^verbatim>\<open>http_request_t\<close>. \<open>buf\<close> is the memory at \<^verbatim>\<open>r->buf\<close>, addressed by byte offset:
  offsets \<open>0 ..< MAX_BUF\<close> are the array. The fields \<^verbatim>\<open>last\<close> and \<^verbatim>\<open>method\<close> are named
  \<open>last_r\<close> and \<open>method_r\<close>. \<open>pos\<close> and \<open>last_r\<close> are \<^verbatim>\<open>size_t\<close> counters that only
  grow; they are natural numbers here, which is the code as long as a connection carries fewer
  than \<open>2 ^ 64\<close> bytes. \<open>list\<close> is the intrusive header list, first node first. The
  descriptors \<^verbatim>\<open>fd\<close>, \<^verbatim>\<open>epfd\<close> and the \<^verbatim>\<open>timer\<close> back pointer play no part in parsing and
  are left out.
\<close>

record http_request_t =
  root :: string
  buf :: "int \<Rightarrow> char"
  pos :: nat
  last_r :: nat
  state :: int
  request_start :: ptr
  method_r :: int
  uri_start :: ptr
  uri_end :: ptr
  http_major :: int
  http_minor :: int
  request_end :: ptr
  list :: "http_header_t list"
  cur_header_key_start :: ptr
  cur_header_key_end :: ptr
  cur_header_value_start :: ptr
  cur_header_value_end :: ptr

text \<open>
  Arithmetic on a 32-bit \<^verbatim>\<open>int\<close>: the result wraps around in two's complement, as it
  does in the program as built (ISO C leaves signed overflow undefined).
\<close>

definition int_wrap :: "int \<Rightarrow> int" where
  "int_wrap i = (i + 2 ^ 31) mod 2 ^ 32 - 2 ^ 31"

text \<open>\<^verbatim>\<open>http_out_t\<close>; \<open>mtime\<close> is a \<^verbatim>\<open>time_t\<close> in seconds.\<close>

record http_out_t =
  keep_alive :: bool
  mtime :: int
  modified :: bool
  status :: int

section \<open>The request-line parser (http\_parser.c)\<close>

text \<open>The states of \<^verbatim>\<open>http_parse_request_line\<close>, as the integers the enum gives them.\<close>

definition s_start :: int where "s_start = 0"
definition s_method :: int where "s_method = 1"
definition s_spaces_before_uri :: int where "s_spaces_before_uri = 2"
definition s_after_slash_in_uri :: int where "s_after_slash_in_uri = 3"
definition s_http :: int where "s_http = 4"
definition s_http_H :: int where "s_http_H = 5"
definition s_http_HT :: int where "s_http_HT = 6"
definition s_http_HTT :: int where "s_http_HTT = 7"
definition s_http_HTTP :: int where "s_http_HTTP = 8"
definition s_first_major_digit :: int where "s_first_major_digit = 9"
definition s_major_digit :: int where "s_major_digit = 10"
definition s_first_minor_digit :: int where "s_first_minor_digit = 11"
definition s_minor_digit :: int where "s_minor_digit = 12"
definition s_spaces_after_digit :: int where "s_spaces_after_digit = 13"
definition s_almost_done :: int where "s_almost_done = 14"

lemmas line_states =
  s_start_def s_method_def s_spaces_before_uri_def s_after_slash_in_uri_def s_http_def
  s_http_H_def s_http_HT_def s_http_HTT_def s_http_HTTP_def s_first_major_digit_def
  s_major_digit_def s_first_minor_digit_def s_minor_digit_def s_spaces_after_digit_def
  s_almost_done_def

text \<open>
  \<^verbatim>\<open>cst_strcmp(m, c0, c1, c2, c3)\<close>: the four bytes at \<open>m\<close>, loaded as one little-endian
  \<^verbatim>\<open>uint32_t\<close>, against \<^verbatim>\<open>(c3 << 24) | (c2 << 16) | (c1 << 8) | c0\<close>.
\<close>

definition pack_u32 :: "char \<Rightarrow> char \<Rightarrow> char \<Rightarrow> char \<Rightarrow> 32 word" where
  "pack_u32 c0 c1 c2 c3 =
     push_bit 24 (of_char c3) OR push_bit 16 (of_char c2) OR push_bit 8 (of_char c1) OR of_char c0"

definition load_u32 :: "(int \<Rightarrow> char) \<Rightarrow> int \<Rightarrow> 32 word" where
  "load_u32 mem m = pack_u32 (mem m) (mem (m + 1)) (mem (m + 2)) (mem (m + 3))"

definition cst_strcmp :: "(int \<Rightarrow> char) \<Rightarrow> int \<Rightarrow> char \<Rightarrow> char \<Rightarrow> char \<Rightarrow> char \<Rightarrow> bool" where
  "cst_strcmp mem m c0 c1 c2 c3 \<longleftrightarrow> load_u32 mem m = pack_u32 c0 c1 c2 c3"

text \<open>
  What one pass through the loop body ends with: \<^verbatim>\<open>break\<close> out of the switch (the loop
  goes on with the next byte), a \<^verbatim>\<open>return\<close> of an error code, or \<^verbatim>\<open>goto done\<close>.
\<close>

datatype step =
    Continue http_request_t int
  | Return retcode http_request_t
  | Goto_done http_request_t

text \<open>
  The inner \<^verbatim>\<open>switch (p - m)\<close> of state \<^verbatim>\<open>s_method\<close>. With \<open>m\<close> null the difference is
  the address of \<open>p\<close> itself, which is neither 3 nor 4.
\<close>

definition classify_method :: "http_request_t \<Rightarrow> int \<Rightarrow> http_request_t" where
  "classify_method r p =
     (case request_start r of
        NULL \<Rightarrow> r\<lparr>method_r := HTTP_UNKNOWN\<rparr>
      | Addr m \<Rightarrow>
          if p - m = 3 then
            (if cst_strcmp (buf r) m CHR ''G'' CHR ''E'' CHR ''T'' CHR '' ''
             then r\<lparr>method_r := HTTP_GET\<rparr> else r)
          else if p - m = 4 then
            (if cst_strcmp (buf r) m CHR ''P'' CHR ''O'' CHR ''S'' CHR ''T''
             then r\<lparr>method_r := HTTP_POST\<rparr>
             else if cst_strcmp (buf r) m CHR ''H'' CHR ''E'' CHR ''A'' CHR ''D''
             then r\<lparr>method_r := HTTP_HEAD\<rparr> else r)
          else r\<lparr>method_r := HTTP_UNKNOWN\<rparr>)"

text \<open>
  The body of the \<^verbatim>\<open>for\<close> loop: the \<^verbatim>\<open>switch (state)\<close> on the byte \<open>ch\<close> read at
  \<open>p\<close>. The version numbers are C \<^verbatim>\<open>int\<close>s; their overflow on an absurdly long digit
  string is undefined in C and not modelled. A state outside the enum matches no case.
\<close>

definition request_line_step :: "http_request_t \<Rightarrow> int \<Rightarrow> int \<Rightarrow> char \<Rightarrow> step" where
  "request_line_step r st p ch =
    (if st = s_start then
       (let r1 = r\<lparr>request_start := Addr p\<rparr> in
        if ch = CR \<or> ch = LF then Continue r1 st
        else if (ch < CHR ''A'' \<or> ch > CHR ''Z'') \<and> ch \<noteq> CHR ''_''
        then Return HTTP_PARSER_INVALID_METHOD r1
        else Continue r1 s_method)
     else if st = s_method then
       (if ch = CHR '' '' then Continue (classify_method r p) s_spaces_before_uri
        else if (ch < CHR ''A'' \<or> ch > CHR ''Z'') \<and> ch \<noteq> CHR ''_''
        then Return HTTP_PARSER_INVALID_METHOD r
        else Continue r st)
     else if st = s_spaces_before_uri then
       (if ch = CHR ''/'' then Continue (r\<lparr>uri_start := Addr p\<rparr>) s_after_slash_in_uri
        else if ch = CHR '' '' then Continue r st
        else Return HTTP_PARSER_INVALID_REQUEST r)
     else if st = s_after_slash_in_uri then
       (if ch = CHR '' '' then Continue (r\<lparr>uri_end := Addr p\<rparr>) s_http
        else Continue r st)
     else if st = s_http then
       (if ch = CHR '' '' then Continue r st
        else if ch = CHR ''H'' then Continue r s_http_H
        else Return HTTP_PARSER_INVALID_REQUEST r)
     else if st = s_http_H then
       (if ch = CHR ''T'' then Continue r s_http_HT
        else Return HTTP_PARSER_INVALID_REQUEST r)
     else if st = s_http_HT then
       (if ch = CHR ''T'' then Continue r s_http_HTT
        else Return HTTP_PARSER_INVALID_REQUEST r)
     else if st = s_http_HTT then
       (if ch = CHR ''P'' then Continue r s_http_HTTP
        else Return HTTP_PARSER_INVALID_REQUEST r)
     else if st = s_http_HTTP then
       (if ch = CHR ''/'' then Continue r s_first_major_digit
        else Return HTTP_PARSER_INVALID_REQUEST r)
     else if st = s_first_major_digit then
       (if ch < CHR ''1'' \<or> ch > CHR ''9'' then Return HTTP_PARSER_INVALID_REQUEST r
        else Continue (r\<lparr>http_major := of_char ch - of_char CHR ''0''\<rparr>) s_major_digit)
     else if st = s_major_digit then
       (if ch = CHR ''.'' then Continue r s_first_minor_digit
        else if ch < CHR ''0'' \<or> ch > CHR ''9'' then Return HTTP_PARSER_INVALID_REQUEST r
        else Continue (r\<lparr>http_major := int_wrap (http_major r * 10 + of_char ch - of_char CHR ''0'')\<rparr>) st)
     else if st = s_first_minor_digit then
       (if ch < CHR ''0'' \<or> ch > CHR ''9'' then Return HTTP_PARSER_INVALID_REQUEST r
        else Continue (r\<lparr>http_minor := of_char ch - of_char CHR ''0''\<rparr>) s_minor_digit)
     else if st = s_minor_digit then
       (if ch = CR then Continue r s_almost_done
        else if ch = LF then Goto_done r
        else if ch = CHR '' '' then Continue r s_spaces_after_digit
        else if ch < CHR ''0'' \<or> ch > CHR ''9'' then Return HTTP_PARSER_INVALID_REQUEST r
        else Continue (r\<lparr>http_minor := int_wrap (http_minor r * 10 + of_char ch - of_char CHR ''0'')\<rparr>) st)
     else if st = s_spaces_after_digit then
       (if ch = CHR '' '' then Continue r st
        else if ch = CR then Continue r s_almost_done
        else if ch = LF then Goto_done r
        else Return HTTP_PARSER_INVALID_REQUEST r)
     else if st = s_almost_done then
       (let r1 = r\<lparr>request_end := Addr (p - 1)\<rparr> in
        if ch = LF then Goto_done r1
        else Return HTTP_PARSER_INVALID_REQUEST r1)
     else Continue r st)"

text \<open>
  \<^verbatim>\<open>for (pi = r->pos; pi < r->last; pi++)\<close> with the two exits below it: running out of
  data saves \<open>pos\<close> and \<open>state\<close> and returns \<^verbatim>\<open>EAGAIN\<close>; the label \<^verbatim>\<open>done\<close> sets
  \<open>pos\<close> past the current byte, fills \<open>request_end\<close> when it is still null, and resets
  the state.
\<close>

function request_line_loop :: "http_request_t \<Rightarrow> int \<Rightarrow> nat \<Rightarrow> retcode \<times> http_request_t" where
  "request_line_loop r st pi =
     (if pi < last_r r then
        (case request_line_step r st (int (pi mod MAX_BUF)) (buf r (int (pi mod MAX_BUF))) of
           Continue r' st' \<Rightarrow> request_line_loop r' st' (pi + 1)
         | Return e r' \<Rightarrow> (e, r')
         | Goto_done r' \<Rightarrow>
             (OK, r'\<lparr>pos := pi + 1,
                     request_end := (if request_end r' = NULL then Addr (int (pi mod MAX_BUF))
                                     else request_end r'),
                     state := s_start\<rparr>))
      else (AGAIN, r\<lparr>pos := pi, state := st\<rparr>))"
  by pat_completeness auto
termination
  by (relation "measure (\<lambda>(r, st, pi). last_r r - pi)")
     (auto simp: request_line_step_def classify_method_def Let_def split: if_splits ptr.splits)

declare request_line_loop.simps [simp del]

definition http_parse_request_line :: "http_request_t \<Rightarrow> retcode \<times> http_request_t" where
  "http_parse_request_line r = request_line_loop r (state r) (pos r)"

section \<open>The header parser (http\_parser.c)\<close>

text \<open>
  The states of \<^verbatim>\<open>http_parse_request_body\<close>; its enum starts again at 0, so \<open>s_start\<close>
  is shared and the others coincide, as integers, with states of the request-line parser.
\<close>

definition s_key :: int where "s_key = 1"
definition s_spaces_before_colon :: int where "s_spaces_before_colon = 2"
definition s_spaces_after_colon :: int where "s_spaces_after_colon = 3"
definition s_value :: int where "s_value = 4"
definition s_cr :: int where "s_cr = 5"
definition s_crlf :: int where "s_crlf = 6"
definition s_crlfcr :: int where "s_crlfcr = 7"

lemmas body_states =
  s_start_def s_key_def s_spaces_before_colon_def s_spaces_after_colon_def s_value_def
  s_cr_def s_crlf_def s_crlfcr_def

text \<open>
  The header that state \<^verbatim>\<open>s_cr\<close> allocates and fills from the scratch fields
  (\<^verbatim>\<open>malloc\<close> is taken to succeed).
\<close>

definition cur_header :: "http_request_t \<Rightarrow> http_header_t" where
  "cur_header r =
     \<lparr>key_start = cur_header_key_start r, key_end = cur_header_key_end r,
      value_start = cur_header_value_start r, value_end = cur_header_value_end r\<rparr>"

text \<open>
  \<^verbatim>\<open>list_add(&hd->list, &r->list)\<close> links the new node right after the list head, so the
  newest header is the first of the list.
\<close>

definition list_add :: "http_header_t \<Rightarrow> http_request_t \<Rightarrow> http_request_t" where
  "list_add h r = r\<lparr>list := h # list r\<rparr>"

text \<open>
  The body of the loop. In \<^verbatim>\<open>s_value\<close> the two tests are separate \<^verbatim>\<open>if\<close>s, one after the
  other; a bare LF there goes to \<^verbatim>\<open>s_crlf\<close> without storing a header.
\<close>

definition request_body_step :: "http_request_t \<Rightarrow> int \<Rightarrow> int \<Rightarrow> char \<Rightarrow> step" where
  "request_body_step r st p ch =
    (if st = s_start then
       (if ch = CR \<or> ch = LF then Continue r st
        else Continue (r\<lparr>cur_header_key_start := Addr p\<rparr>) s_key)
     else if st = s_key then
       (if ch = CHR '' '' then Continue (r\<lparr>cur_header_key_end := Addr p\<rparr>) s_spaces_before_colon
        else if ch = CHR '':'' then Continue (r\<lparr>cur_header_key_end := Addr p\<rparr>) s_spaces_after_colon
        else Continue r st)
     else if st = s_spaces_before_colon then
       (if ch = CHR '' '' then Continue r st
        else if ch = CHR '':'' then Continue r s_spaces_after_colon
        else Return HTTP_PARSER_INVALID_HEADER r)
     else if st = s_spaces_after_colon then
       (if ch = CHR '' '' then Continue r st
        else Continue (r\<lparr>cur_header_value_start := Addr p\<rparr>) s_value)
     else if st = s_value then
       (let (r1, st1) = (if ch = CR then (r\<lparr>cur_header_value_end := Addr p\<rparr>, s_cr) else (r, st));
            (r2, st2) = (if ch = LF then (r1\<lparr>cur_header_value_end := Addr p\<rparr>, s_crlf) else (r1, st1))
        in Continue r2 st2)
     else if st = s_cr then
       (if ch = LF then Continue (list_add (cur_header r) r) s_crlf
        else Return HTTP_PARSER_INVALID_HEADER r)
     else if st = s_crlf then
       (if ch = CR then Continue r s_crlfcr
        else Continue (r\<lparr>cur_header_key_start := Addr p\<rparr>) s_key)
     else if st = s_crlfcr then
       (if ch = LF then Goto_done r
        else Return HTTP_PARSER_INVALID_HEADER r)
     else Continue r st)"

function request_body_loop :: "http_request_t \<Rightarrow> int \<Rightarrow> nat \<Rightarrow> retcode \<times> http_request_t" where
  "request_body_loop r st pi =
     (if pi < last_r r then
        (case request_body_step r st (int (pi mod MAX_BUF)) (buf r (int (pi mod MAX_BUF))) of
           Continue r' st' \<Rightarrow> request_body_loop r' st' (pi + 1)
         | Return e r' \<Rightarrow> (e, r')
         | Goto_done r' \<Rightarrow> (OK, r'\<lparr>pos := pi + 1, state := s_start\<rparr>))
      else (AGAIN, r\<lparr>pos := pi, state := st\<rparr>))"
  by pat_completeness auto
termination
  by (relation "measure (\<lambda>(r, st, pi). last_r r - pi)")
     (auto simp: request_body_step_def list_add_def Let_def split: if_splits)

declare request_body_loop.simps [simp del]

text \<open>
  \<^verbatim>\<open>assert(state == 0 && "state should be 0")\<close> stands before the loop. The Makefile builds
  with \<^verbatim>\<open>-DNDEBUG\<close>, which compiles assertions away; \<open>ndebug\<close> says whether that flag is
  set. A failed assertion aborts the process: the function does not return (\<open>None\<close>).
\<close>

definition http_parse_request_body ::
  "bool \<Rightarrow> http_request_t \<Rightarrow> (retcode \<times> http_request_t) option" where
  "http_parse_request_body ndebug r =
     (if \<not> ndebug \<and> state r \<noteq> 0 then None
      else Some (request_body_loop r (state r) (pos r)))"

section \<open>Bytes arriving in the ring buffer\<close>

text \<open>
  \<^verbatim>\<open>init_http_request\<close> sets the descriptors, \<open>pos\<close>, \<open>last\<close>, \<open>state\<close>, \<open>root\<close> and
  the list head; every other field keeps what the allocated memory held (\<open>r\<close>).
\<close>

definition init_http_request :: "http_request_t \<Rightarrow> string \<Rightarrow> http_request_t" where
  "init_http_request r rt = r\<lparr>pos := 0, last_r := 0, state := 0, root := rt, list := []\<rparr>"

text \<open>
  \<^verbatim>\<open>read(fd, plast, n)\<close> stores the bytes it delivers at consecutive addresses from
  \<open>plast\<close>.
\<close>

fun store :: "(int \<Rightarrow> char) \<Rightarrow> int \<Rightarrow> string \<Rightarrow> (int \<Rightarrow> char)" where
  "store mem a [] = mem"
| "store mem a (c # cs) = store (mem(a := c)) (a + 1) cs"

text \<open>The \<open>n\<close> bytes found from address \<open>a\<close> on.\<close>

fun bytes_at :: "(int \<Rightarrow> char) \<Rightarrow> int \<Rightarrow> nat \<Rightarrow> string" where
  "bytes_at mem a 0 = []"
| "bytes_at mem a (Suc n) = mem a # bytes_at mem (a + 1) n"

text \<open>
  A chunk of the byte stream entering the ring: each byte goes to
  \<^verbatim>\<open>buf[last % MAX_BUF]\<close> and \<open>last\<close> moves on by one. This is what the driver's reads
  do to the connection, whatever the sizes in which the bytes of the chunk are delivered.
\<close>

fun feed :: "http_request_t \<Rightarrow> string \<Rightarrow> http_request_t" where
  "feed r [] = r"
| "feed r (c # cs) =
     feed (r\<lparr>buf := (buf r)(int (last_r r mod MAX_BUF) := c), last_r := last_r r + 1\<rparr>) cs"















section \<open>Header dispatch (http\_request.c)\<close>

text \<open>An \<^verbatim>\<open>int\<close> or pointer difference passed where a \<^verbatim>\<open>size_t\<close> is expected.\<close>

definition size_t_of_int :: "int \<Rightarrow> nat" where
  "size_t_of_int i = nat (i mod 2 ^ 64)"

text \<open>\<^verbatim>\<open>tolower\<close> in the C locale (the server never calls \<^verbatim>\<open>setlocale\<close>).\<close>

definition tolower :: "char \<Rightarrow> char" where
  "tolower c = (if CHR ''A'' \<le> c \<and> c \<le> CHR ''Z'' then char_of (of_char c + (32 :: nat)) else c)"

text \<open>
  \<^verbatim>\<open>strncmp(s, name, n) == 0\<close> for the string at address \<open>a\<close> of \<open>mem\<close> and a literal
  \<open>name\<close> (which holds no NUL and ends with one): at most \<open>n\<close> bytes are compared, and the
  comparison stops with equality where both strings end.
\<close>

fun strncmp_eq :: "(int \<Rightarrow> char) \<Rightarrow> int \<Rightarrow> string \<Rightarrow> nat \<Rightarrow> bool" where
  "strncmp_eq mem a [] n = (n = 0 \<or> mem a = NUL)"
| "strncmp_eq mem a (c # cs) n = (n = 0 \<or> (mem a = c \<and> strncmp_eq mem (a + 1) cs (n - 1)))"

text \<open>\<^verbatim>\<open>strncasecmp(lit, s, n) == 0\<close>, the same with both bytes put through \<^verbatim>\<open>tolower\<close>.\<close>

fun strncasecmp_eq :: "string \<Rightarrow> (int \<Rightarrow> char) \<Rightarrow> int \<Rightarrow> nat \<Rightarrow> bool" where
  "strncasecmp_eq [] mem a n = (n = 0 \<or> tolower (mem a) = NUL)"
| "strncasecmp_eq (c # cs) mem a n =
     (n = 0 \<or> (tolower c = tolower (mem a) \<and> strncasecmp_eq cs mem (a + 1) (n - 1)))"

text \<open>
  The handlers take the response state \<open>out\<close>, and the header's value as an address \<open>data\<close>
  in the buffer \<open>mem\<close> with a length \<open>len\<close>.
\<close>

definition http_process_ignore :: "http_out_t \<Rightarrow> (int \<Rightarrow> char) \<Rightarrow> int \<Rightarrow> int \<Rightarrow> http_out_t" where
  "http_process_ignore out mem data len = out"

definition http_process_connection :: "http_out_t \<Rightarrow> (int \<Rightarrow> char) \<Rightarrow> int \<Rightarrow> int \<Rightarrow> http_out_t" where
  "http_process_connection out mem data len =
     (if strncasecmp_eq ''keep-alive'' mem data (size_t_of_int len)
      then out\<lparr>keep_alive := True\<rparr> else out)"

text \<open>
  \<^verbatim>\<open>strptime\<close> followed by \<^verbatim>\<open>mktime\<close> is the C library's, and depends on the time zone:
  \<open>strptime_mktime mem data\<close> is the \<^verbatim>\<open>time_t\<close> they give for the string at \<open>data\<close>, or
  \<open>None\<close> when \<^verbatim>\<open>strptime\<close> fails. \<^verbatim>\<open>fabs(difftime(a, b)) < 1e-6\<close> on two whole numbers of
  seconds says that they are equal.
\<close>

type_synonym date_parser = "(int \<Rightarrow> char) \<Rightarrow> int \<Rightarrow> int option"

definition http_process_if_modified_since ::
  "date_parser \<Rightarrow> http_out_t \<Rightarrow> (int \<Rightarrow> char) \<Rightarrow> int \<Rightarrow> int \<Rightarrow> http_out_t" where
  "http_process_if_modified_since strptime_mktime out mem data len =
     (case strptime_mktime mem data of
        None \<Rightarrow> out
      | Some client_time \<Rightarrow>
          if mtime out = client_time
          then out\<lparr>modified := False, status := HTTP_NOT_MODIFIED\<rparr> else out)"

text \<open>
  \<open>v\<close> is a prefix of \<open>lit\<close> when letter case is ignored: the property of a header value
  that the handler of \<^verbatim>\<open>Connection\<close> is said to test.
\<close>

definition ci_prefix :: "string \<Rightarrow> string \<Rightarrow> bool" where
  "ci_prefix v lit \<longleftrightarrow> length v \<le> length lit \<and> map tolower v = map tolower (take (length v) lit)"

text \<open>The function pointers of the dispatch table, and the table \<^verbatim>\<open>http_headers_in\<close>.\<close>

datatype http_header_handler = Fn_ignore | Fn_connection | Fn_if_modified_since

definition http_headers_in :: "(string \<times> http_header_handler) list" where
  "http_headers_in =
     [(''Host'', Fn_ignore), (''Connection'', Fn_connection),
      (''If-Modified-Since'', Fn_if_modified_since), ([], Fn_ignore)]"

fun call_handler ::
  "date_parser \<Rightarrow> http_header_handler \<Rightarrow> http_out_t \<Rightarrow> (int \<Rightarrow> char) \<Rightarrow> int \<Rightarrow> int \<Rightarrow> http_out_t" where
  "call_handler tm Fn_ignore out mem data len = http_process_ignore out mem data len"
| "call_handler tm Fn_connection out mem data len = http_process_connection out mem data len"
| "call_handler tm Fn_if_modified_since out mem data len =
     http_process_if_modified_since tm out mem data len"

text \<open>The name and the value of a parsed header: the bytes between its pointers.\<close>

definition header_key :: "(int \<Rightarrow> char) \<Rightarrow> http_header_t \<Rightarrow> string" where
  "header_key mem h =
     (case (key_start h, key_end h) of
        (Addr ks, Addr ke) \<Rightarrow> bytes_at mem ks (nat (ke - ks))
      | _ \<Rightarrow> [])"

definition header_value :: "(int \<Rightarrow> char) \<Rightarrow> http_header_t \<Rightarrow> string" where
  "header_value mem h =
     (case (value_start h, value_end h) of
        (Addr vs, Addr ve) \<Rightarrow> bytes_at mem vs (nat (ve - vs))
      | _ \<Rightarrow> [])"

text \<open>
  The inner \<^verbatim>\<open>for\<close> loop of \<^verbatim>\<open>http_handle_header\<close>: it walks the table up to the entry
  with the empty name and stops at the first entry for which
  \<^verbatim>\<open>strncmp(key_start, name, key_end - key_start)\<close> is 0.
\<close>

fun header_lookup ::
  "(int \<Rightarrow> char) \<Rightarrow> int \<Rightarrow> nat \<Rightarrow> (string \<times> http_header_handler) list \<Rightarrow> http_header_handler option" where
  "header_lookup mem ks n [] = None"
| "header_lookup mem ks n ((name, h) # tbl) =
     (if length name > 0 then
        (if strncmp_eq mem ks name n then Some h else header_lookup mem ks n tbl)
      else None)"

text \<open>
  One pass of the outer loop. A header with a null pointer in it makes the comparison read
  through that pointer: a fault (\<open>None\<close>).
\<close>

definition handle_one_header ::
  "date_parser \<Rightarrow> (int \<Rightarrow> char) \<Rightarrow> http_header_t \<Rightarrow> http_out_t \<Rightarrow> http_out_t option" where
  "handle_one_header tm mem h out =
     (case (key_start h, key_end h) of
        (Addr ks, Addr ke) \<Rightarrow>
          (case header_lookup mem ks (size_t_of_int (ke - ks)) http_headers_in of
             None \<Rightarrow> Some out
           | Some f \<Rightarrow>
               (case (value_start h, value_end h) of
                  (Addr vs, Addr ve) \<Rightarrow> Some (call_handler tm f out mem vs (ve - vs))
                | _ \<Rightarrow> None))
      | _ \<Rightarrow> None)"

fun handle_headers ::
  "date_parser \<Rightarrow> (int \<Rightarrow> char) \<Rightarrow> http_header_t list \<Rightarrow> http_out_t \<Rightarrow> http_out_t option" where
  "handle_headers tm mem [] out = Some out"
| "handle_headers tm mem (h # hs) out =
     (case handle_one_header tm mem h out of
        None \<Rightarrow> None
      | Some out' \<Rightarrow> handle_headers tm mem hs out')"

text \<open>
  \<^verbatim>\<open>http_handle_header\<close>: every header of the list is dispatched and then unlinked and
  freed, so the list is empty afterwards.
\<close>

definition http_handle_header ::
  "date_parser \<Rightarrow> http_request_t \<Rightarrow> http_out_t \<Rightarrow> (http_request_t \<times> http_out_t) option" where
  "http_handle_header tm r out =
     (case handle_headers tm (buf r) (list r) out of
        None \<Rightarrow> None
      | Some out' \<Rightarrow> Some (r\<lparr>list := []\<rparr>, out'))"

section \<open>Resolving the URI and building the response (http.c)\<close>

text \<open>\<^verbatim>\<open>%d\<close> and \<^verbatim>\<open>%zu\<close> of \<^verbatim>\<open>sprintf\<close>: a number in decimal.\<close>

function print_nat :: "nat \<Rightarrow> string" where
  "print_nat n =
     (if n < 10 then [char_of (48 + n)]
      else print_nat (n div 10) @ [char_of (48 + n mod 10)])"
  by pat_completeness auto
termination
  by (relation "measure (\<lambda>n. n)") auto

declare print_nat.simps [simp del]

definition print_int :: "int \<Rightarrow> string" where
  "print_int i = (if i < 0 then CHR ''-'' # print_nat (nat (- i)) else print_nat (nat i))"

text \<open>
  A C string held in a character array: the bytes before the first NUL. \<open>strchr_idx\<close> and
  \<open>strrchr_idx\<close> give the index of the first and of the last occurrence of a byte, where
  \<^verbatim>\<open>strchr\<close> and \<^verbatim>\<open>strrchr\<close> give a pointer, and \<open>None\<close> for their null pointer.
\<close>

definition cstr :: "string \<Rightarrow> string" where
  "cstr s = takeWhile (\<lambda>c. c \<noteq> NUL) s"

definition strchr_idx :: "string \<Rightarrow> char \<Rightarrow> nat option" where
  "strchr_idx s c = (if c \<in> set s then Some (length (takeWhile (\<lambda>x. x \<noteq> c) s)) else None)"

definition strrchr_idx :: "string \<Rightarrow> char \<Rightarrow> nat option" where
  "strrchr_idx s c =
     (if c \<in> set s then Some (length s - 1 - length (takeWhile (\<lambda>x. x \<noteq> c) (rev s))) else None)"

text \<open>
  \<^verbatim>\<open>parse_uri(uri, uri_length, filename)\<close>, with \<open>uri\<close> the \<open>uri_length\<close> bytes at the pointer
  and \<open>webroot\<close> the file-scope variable. The function first stores a NUL at
  \<^verbatim>\<open>uri[uri_length]\<close>, so the C string at \<open>uri\<close> is \<open>cstr uri\<close>. It returns nothing: it either
  logs "uri too long" and leaves \<open>filename\<close> as it was, or writes the resolved name there.
  \<^verbatim>\<open>strrchr(last_comp, '.')\<close> with a null \<open>last_comp\<close>, and a name longer than the
  \<open>SHORTLINE\<close> bytes of the caller's array, are faults.
\<close>

datatype uri_error = Uri_too_long | Null_last_comp | Filename_overflow | Read_past_array

definition parse_uri :: "string \<Rightarrow> string \<Rightarrow> uri_error + string" where
  "parse_uri webroot uri =
     (let uri_length = int (length uri);
          file_length = (case strchr_idx (cstr uri) CHR ''?'' of
                           Some i \<Rightarrow> int i
                         | None \<Rightarrow> uri_length)
      in if uri_length > int (drop_bit 1 SHORTLINE) then Inl Uri_too_long
         else
           (let filename = webroot @ take (size_t_of_int file_length) (cstr uri)
            in case strrchr_idx filename CHR ''/'' of
                 None \<Rightarrow> Inl Null_last_comp
               | Some last_comp \<Rightarrow>
                   (let last_dot = strrchr_idx (drop last_comp filename) CHR ''.'';
                        filename1 = (if last_dot = None \<and> filename ! (length filename - 1) \<noteq> CHR ''/''
                                     then filename @ ''/'' else filename);
                        filename2 = (if filename1 ! (length filename1 - 1) = CHR ''/''
                                     then filename1 @ ''index.html'' else filename1)
                    in if length filename2 + 1 > SHORTLINE then Inl Filename_overflow
                       else Inr filename2)))"


text \<open>The table \<^verbatim>\<open>mime\<close>, whose last entry has a null type, and \<^verbatim>\<open>get_file_type\<close>.\<close>

definition mime :: "(string option \<times> string) list" where
  "mime =
     [(Some ''.html'', ''text/html''), (Some ''.xml'', ''text/xml''),
      (Some ''.xhtml'', ''application/xhtml+xml''), (Some ''.txt'', ''text/plain''),
      (Some ''.pdf'', ''application/pdf''), (Some ''.png'', ''image/png''),
      (Some ''.gif'', ''image/gif''), (Some ''.jpg'', ''image/jpeg''),
      (Some ''.css'', ''text/css''), (None, ''text/plain'')]"

fun mime_lookup :: "string \<Rightarrow> (string option \<times> string) list \<Rightarrow> string" where
  "mime_lookup t [] = []"
| "mime_lookup t ((None, v) # tbl) = v"
| "mime_lookup t ((Some k, v) # tbl) = (if t = k then v else mime_lookup t tbl)"

definition get_file_type :: "string option \<Rightarrow> string" where
  "get_file_type t = (case t of None \<Rightarrow> ''text/plain'' | Some s \<Rightarrow> mime_lookup s mime)"

definition get_msg_from_status :: "int \<Rightarrow> string" where
  "get_msg_from_status status_code =
     (if status_code = HTTP_OK then ''OK''
      else if status_code = HTTP_NOT_MODIFIED then ''Not Modified''
      else if status_code = HTTP_NOT_FOUND then ''Not Found''
      else ''Unknown'')"


text \<open>
  The header block of \<^verbatim>\<open>serve_static\<close>, as the pieces its \<^verbatim>\<open>sprintf\<close> calls append one
  after the other; each piece is one header line, the last one with the closing blank line.
  \<open>date\<close> is what \<^verbatim>\<open>localtime_r\<close> and \<^verbatim>\<open>strftime\<close> print for a \<^verbatim>\<open>time_t\<close>.
\<close>

definition serve_static_lines :: "(int \<Rightarrow> string) \<Rightarrow> string \<Rightarrow> nat \<Rightarrow> http_out_t \<Rightarrow> string list" where
  "serve_static_lines date filename filesize out =
     (let dot_pos = map_option (\<lambda>i. drop i filename) (strrchr_idx filename CHR ''.'');
          file_type = get_file_type dot_pos
      in [''HTTP/1.1 '' @ print_int (status out) @ '' '' @ get_msg_from_status (status out) @ [CR, LF]]
         @ (if keep_alive out
            then [''Connection: keep-alive'' @ [CR, LF],
                  ''Keep-Alive: timeout='' @ print_int TIMEOUT_DEFAULT @ [CR, LF]]
            else [])
         @ (if modified out
            then [''Content-type: '' @ file_type @ [CR, LF],
                  ''Content-length: '' @ print_nat filesize @ [CR, LF],
                  ''Last-Modified: '' @ date (mtime out) @ [CR, LF]]
            else [])
         @ [''Server: seHTTPd'' @ [CR, LF, CR, LF]])"

text \<open>
  \<^verbatim>\<open>serve_static\<close>: the header block, and the mapped file when \<open>modified\<close> is set.
  \<open>content\<close> is what \<^verbatim>\<open>mmap\<close> shows of the file.
\<close>

definition serve_static ::
  "(int \<Rightarrow> string) \<Rightarrow> (string \<Rightarrow> string) \<Rightarrow> string \<Rightarrow> nat \<Rightarrow> http_out_t \<Rightarrow> string list" where
  "serve_static date content filename filesize out =
     (let header = concat (serve_static_lines date filename filesize out)
      in if \<not> modified out then [header]
         else [header, take filesize (content filename)])"

text \<open>
  The lines of a block of text: the pieces that its CR LF pairs end, and what follows the
  last pair if anything does. \<open>acc\<close> holds the line being read, last byte first.
\<close>

fun split_crlf :: "string \<Rightarrow> string \<Rightarrow> string list" where
  "split_crlf acc [] = (if acc = [] then [] else [rev acc])"
| "split_crlf acc [a] = [rev (a # acc)]"
| "split_crlf acc (a # b # cs) =
     (if a = CR \<and> b = LF then rev acc # split_crlf [] cs else split_crlf (a # acc) (b # cs))"

definition crlf_lines :: "string \<Rightarrow> string list" where
  "crlf_lines s = split_crlf [] s"

text \<open>\<^verbatim>\<open>init_http_out\<close> on the freshly allocated \<open>out\<close>; \<open>mtime\<close> keeps what the memory held.\<close>

definition init_http_out :: "http_out_t \<Rightarrow> http_out_t" where
  "init_http_out out = out\<lparr>keep_alive := False, modified := True, status := 0\<rparr>"

section \<open>The command line (mainloop.c)\<close>

definition DEFAULT_PORT :: int where "DEFAULT_PORT = 8081"
definition DEFAULT_WEBROOT :: string where "DEFAULT_WEBROOT = ''./www''"

record runtime_conf =
  port :: int
  web_root :: string

text \<open>\<^verbatim>\<open>exit(EXIT_FAILURE)\<close> ends the process instead of returning.\<close>

datatype proc_exit = EXIT_FAILURE

text \<open>
  \<^verbatim>\<open>strtol(arg, &endptr, 10)\<close> of the C library: white space, an optional sign, then
  decimal digits. \<open>None\<close> stands for \<^verbatim>\<open>endptr == arg\<close> (no digits); the value is the exact
  number, which \<^verbatim>\<open>strtol\<close> clamps to \<^verbatim>\<open>LONG_MIN\<close> and \<^verbatim>\<open>LONG_MAX\<close> (64 bits) with
  \<^verbatim>\<open>errno = ERANGE\<close>. \<^verbatim>\<open>errno\<close> is 0 before the call.
\<close>

definition isspace :: "char \<Rightarrow> bool" where
  "isspace c \<longleftrightarrow> c = CHR '' '' \<or> (CHR 0x09 \<le> c \<and> c \<le> CHR 0x0D)"

definition isdigit :: "char \<Rightarrow> bool" where
  "isdigit c \<longleftrightarrow> CHR ''0'' \<le> c \<and> c \<le> CHR ''9''"

definition strtol :: "string \<Rightarrow> int option" where
  "strtol arg =
     (let s = dropWhile isspace arg;
          neg = (s \<noteq> [] \<and> hd s = CHR ''-'');
          s1 = (if s \<noteq> [] \<and> (hd s = CHR ''-'' \<or> hd s = CHR ''+'') then tl s else s);
          ds = takeWhile isdigit s1;
          v = foldl (\<lambda>v d. 10 * v + (of_char d - of_char CHR ''0'')) 0 ds
      in if ds = [] then None else Some (if neg then - v else v))"

definition cmd_get_port :: "string \<Rightarrow> proc_exit + int" where
  "cmd_get_port arg_port =
     (case strtol arg_port of
        None \<Rightarrow> Inl EXIT_FAILURE
      | Some v \<Rightarrow>
          if v > 2 ^ 63 - 1 \<or> v < - (2 ^ 63) then Inl EXIT_FAILURE
          else if v \<le> 0 \<or> v > 65535 then Inr DEFAULT_PORT
          else Inr v)"

text \<open>
  \<^verbatim>\<open>getopt(argc, argv, optstring)\<close> of the C library, called until it returns -1: the list of
  its results, each the option character returned with \<^verbatim>\<open>optarg\<close>. An option character that
  is not in \<open>optstring\<close>, and an option whose argument is missing, give \<^verbatim>\<open>'?'\<close>. Arguments
  that are not options are passed over, and \<^verbatim>\<open>--\<close> ends the options.
\<close>

fun takes_arg :: "string \<Rightarrow> char \<Rightarrow> bool option" where
  "takes_arg [] c = None"
| "takes_arg (x # xs) c =
     (if x = c \<and> c \<noteq> CHR '':'' then Some (xs \<noteq> [] \<and> hd xs = CHR '':'')
      else takes_arg xs c)"

function getopt_args :: "string \<Rightarrow> string list \<Rightarrow> (char \<times> string) list"
  and getopt_elem :: "string \<Rightarrow> string \<Rightarrow> string list \<Rightarrow> (char \<times> string) list" where
  "getopt_args os [] = []"
| "getopt_args os (a # as) =
     (if a = ''--'' then []
      else if length a \<ge> 2 \<and> hd a = CHR ''-'' then getopt_elem os (tl a) as
      else getopt_args os as)"
| "getopt_elem os [] as = getopt_args os as"
| "getopt_elem os (c # rest) as =
     (case takes_arg os c of
        None \<Rightarrow> (CHR ''?'', []) # getopt_elem os rest as
      | Some False \<Rightarrow> (c, []) # getopt_elem os rest as
      | Some True \<Rightarrow>
          if rest \<noteq> [] then (c, rest) # getopt_args os as
          else (case as of
                  [] \<Rightarrow> [(CHR ''?'', [])]
                | x # as' \<Rightarrow> (c, x) # getopt_args os as'))"
  by pat_completeness auto
termination
  by (relation "measure (\<lambda>x. case x of
          Inl (os, as) \<Rightarrow> sum_list (map length as) + 2 * length as
        | Inr (os, e, as) \<Rightarrow> sum_list (map length as) + 2 * length as + length e + 1)")
     (auto simp: Suc_le_eq)

text \<open>
  The \<^verbatim>\<open>switch (cmdopt)\<close> of \<^verbatim>\<open>parse_cmd\<close>, run over the results of
  \<^verbatim>\<open>getopt(argc, argv, "p:r:")\<close>: its cases are \<^verbatim>\<open>'p'\<close>, \<^verbatim>\<open>'w'\<close>, \<^verbatim>\<open>'?'\<close> and a default
  that prints "Not supported option" and goes on.
\<close>

fun parse_cmd_loop :: "runtime_conf \<Rightarrow> (char \<times> string) list \<Rightarrow> proc_exit + runtime_conf" where
  "parse_cmd_loop cfg [] = Inr cfg"
| "parse_cmd_loop cfg ((cmdopt, optarg) # rest) =
     (if cmdopt = CHR ''p'' then
        (case cmd_get_port optarg of
           Inl e \<Rightarrow> Inl e
         | Inr p \<Rightarrow> parse_cmd_loop (cfg\<lparr>port := p\<rparr>) rest)
      else if cmdopt = CHR ''w'' then parse_cmd_loop (cfg\<lparr>web_root := optarg\<rparr>) rest
      else if cmdopt = CHR ''?'' then Inl EXIT_FAILURE
      else parse_cmd_loop cfg rest)"

definition parse_cmd :: "string list \<Rightarrow> proc_exit + runtime_conf" where
  "parse_cmd argv =
     parse_cmd_loop \<lparr>port = DEFAULT_PORT, web_root = DEFAULT_WEBROOT\<rparr>
       (getopt_args ''p:r:'' (tl argv))"

section \<open>The connection driver (http.c)\<close>

text \<open>
  What lies outside the program: the file system (\<^verbatim>\<open>stat\<close>, \<^verbatim>\<open>mmap\<close>), the C library's
  date functions, and the memory \<^verbatim>\<open>malloc\<close> hands out for \<open>out\<close>.
\<close>

record file_stat =
  st_isreg :: bool
  st_irusr :: bool
  st_size :: nat
  st_mtime :: int

record env =
  stat_file :: "string \<Rightarrow> file_stat option"
  file_content :: "string \<Rightarrow> string"
  strptime_mktime :: date_parser
  strftime_local :: "int \<Rightarrow> string"
  malloc_out :: http_out_t
















section \<open>A sample connection\<close>

text \<open>
  A connection as \<^verbatim>\<open>init_http_request\<close> leaves it on zeroed memory, and an environment with
  one file in it, for the sample runs below.
\<close>

definition conn0 :: http_request_t where
  "conn0 =
     init_http_request
       \<lparr>root = [], buf = (\<lambda>_. NUL), pos = 0, last_r = 0, state = 0, request_start = NULL,
        method_r = 0, uri_start = NULL, uri_end = NULL, http_major = 0, http_minor = 0,
        request_end = NULL, list = [], cur_header_key_start = NULL, cur_header_key_end = NULL,
        cur_header_value_start = NULL, cur_header_value_end = NULL\<rparr>
       ''./www''"

definition env0 :: env where
  "env0 =
     \<lparr>stat_file = (\<lambda>f. if f = ''./www/index.html''
                        then Some \<lparr>st_isreg = True, st_irusr = True, st_size = 5, st_mtime = 1000\<rparr>
                        else None),
      file_content = (\<lambda>f. ''hello''),
      strptime_mktime = (\<lambda>mem a. None),
      strftime_local = (\<lambda>t. ''Thu, 01 Jan 1970 00:16:40 GMT''),
      malloc_out = \<lparr>keep_alive = False, mtime = 0, modified = False, status = 0\<rparr>\<rparr>"

section \<open>The four-byte comparison\<close>

lemma bit_nat_of_char: "bit (of_char c :: nat) n \<Longrightarrow> n < 8"
proof -
  assume b: "bit (of_char c :: nat) n"
  have "take_bit 8 (of_char c :: nat) = of_char c"
    by (simp add: take_bit_eq_mod)
  then have "bit (take_bit 8 (of_char c :: nat)) n" using b by simp
  then show "n < 8" by (simp add: bit_take_bit_iff)
qed

lemma bit_word_of_char:
  "bit (of_char c :: 32 word) n \<longleftrightarrow> bit (of_char c :: nat) n"
proof -
  have "(of_char c :: 32 word) = of_nat (of_char c)" by (simp add: of_nat_of_char)
  then have "bit (of_char c :: 32 word) n \<longleftrightarrow> n < 32 \<and> bit (of_char c :: nat) n"
    by (simp add: bit_simps)
  then show ?thesis using bit_nat_of_char [of c n] by auto
qed

lemma bit_pack_u32:
  "bit (pack_u32 c0 c1 c2 c3) n \<longleftrightarrow>
     (n < 8 \<and> bit (of_char c0 :: nat) n) \<or>
     (8 \<le> n \<and> n < 16 \<and> bit (of_char c1 :: nat) (n - 8)) \<or>
     (16 \<le> n \<and> n < 24 \<and> bit (of_char c2 :: nat) (n - 16)) \<or>
     (24 \<le> n \<and> n < 32 \<and> bit (of_char c3 :: nat) (n - 24))"
  using bit_nat_of_char [of c0 n] bit_nat_of_char [of c1 "n - 8"]
    bit_nat_of_char [of c2 "n - 16"] bit_nat_of_char [of c3 "n - 24"]
  by (auto simp: pack_u32_def bit_or_iff bit_push_bit_iff bit_word_of_char)

lemma of_char_bit_eqI:
  assumes "\<And>n. n < 8 \<Longrightarrow> bit (of_char a :: nat) n = bit (of_char b :: nat) n"
  shows "a = b"
proof -
  have "(of_char a :: nat) = of_char b"
  proof (rule bit_eqI)
    fix n
    show "bit (of_char a :: nat) n = bit (of_char b :: nat) n"
      using assms [of n] bit_nat_of_char [of a n] bit_nat_of_char [of b n] by (cases "n < 8") auto
  qed
  then show ?thesis by simp
qed

lemma pack_u32_inj:
  "pack_u32 a0 a1 a2 a3 = pack_u32 b0 b1 b2 b3 \<longleftrightarrow> a0 = b0 \<and> a1 = b1 \<and> a2 = b2 \<and> a3 = b3"
proof
  assume eq: "pack_u32 a0 a1 a2 a3 = pack_u32 b0 b1 b2 b3"
  have bits: "bit (pack_u32 a0 a1 a2 a3) n = bit (pack_u32 b0 b1 b2 b3) n" for n
    using eq by simp
  have "a0 = b0"
  proof (rule of_char_bit_eqI)
    fix n :: nat assume "n < 8"
    then show "bit (of_char a0 :: nat) n = bit (of_char b0 :: nat) n"
      using bits [of n] by (simp add: bit_pack_u32)
  qed
  moreover have "a1 = b1"
  proof (rule of_char_bit_eqI)
    fix n :: nat assume "n < 8"
    then show "bit (of_char a1 :: nat) n = bit (of_char b1 :: nat) n"
      using bits [of "n + 8"] by (simp add: bit_pack_u32)
  qed
  moreover have "a2 = b2"
  proof (rule of_char_bit_eqI)
    fix n :: nat assume "n < 8"
    then show "bit (of_char a2 :: nat) n = bit (of_char b2 :: nat) n"
      using bits [of "n + 16"] by (simp add: bit_pack_u32)
  qed
  moreover have "a3 = b3"
  proof (rule of_char_bit_eqI)
    fix n :: nat assume "n < 8"
    then show "bit (of_char a3 :: nat) n = bit (of_char b3 :: nat) n"
      using bits [of "n + 24"] by (simp add: bit_pack_u32)
  qed
  ultimately show "a0 = b0 \<and> a1 = b1 \<and> a2 = b2 \<and> a3 = b3" by simp
qed simp

lemma cst_strcmp_iff:
  "cst_strcmp mem m c0 c1 c2 c3 \<longleftrightarrow>
     mem m = c0 \<and> mem (m + 1) = c1 \<and> mem (m + 2) = c2 \<and> mem (m + 3) = c3"
  by (simp add: cst_strcmp_def load_u32_def pack_u32_inj)

section \<open>Sample runs\<close>

lemmas run_simps =
  http_parse_request_line_def http_parse_request_body_def request_line_loop.simps
  request_body_loop.simps request_line_step_def request_body_step_def classify_method_def
  cst_strcmp_iff line_states body_states CR_def LF_def NUL_def MAX_BUF_def Let_def
  conn0_def init_http_request_def list_add_def cur_header_def int_wrap_def

section \<open>A parser called with no new bytes\<close>

text \<open>
  Claim C9. When no new bytes are available (\<open>pos = last\<close>), either parser returns
  \<^verbatim>\<open>EAGAIN\<close> and leaves the whole connection as it was, \<open>pos\<close>, \<open>state\<close> and every parsed
  field included; calling it again therefore gives the same again. This holds for every
  connection state; for the header parser it is the release build (\<^verbatim>\<open>-DNDEBUG\<close>, the
  Makefile's), where the assertion on \<open>state\<close> is compiled out.
\<close>

theorem parsers_without_new_bytes:
  assumes "pos r = last_r r"
  shows "http_parse_request_line r = (AGAIN, r) \<and>
         http_parse_request_body True r = Some (AGAIN, r) \<and>
         http_parse_request_line (snd (http_parse_request_line r)) = http_parse_request_line r \<and>
         http_parse_request_body True (snd (the (http_parse_request_body True r))) =
           http_parse_request_body True r"
  using assms
  by (simp add: http_parse_request_line_def http_parse_request_body_def
        request_line_loop.simps request_body_loop.simps)

theorem parsers_without_new_bytes_witness:
  "pos (snd (http_parse_request_line (feed conn0 ''GE''))) =
     last_r (snd (http_parse_request_line (feed conn0 ''GE''))) \<and>
   state (snd (http_parse_request_line (feed conn0 ''GE''))) = s_method \<and>
   http_parse_request_line (snd (http_parse_request_line (feed conn0 ''GE''))) =
     (AGAIN, snd (http_parse_request_line (feed conn0 ''GE''))) \<and>
   http_parse_request_body True (snd (http_parse_request_line (feed conn0 ''GE''))) =
     Some (AGAIN, snd (http_parse_request_line (feed conn0 ''GE'')))"
proof -
  have p: "pos (snd (http_parse_request_line (feed conn0 ''GE''))) =
           last_r (snd (http_parse_request_line (feed conn0 ''GE'')))"
    by (simp add: run_simps)
  have s: "state (snd (http_parse_request_line (feed conn0 ''GE''))) = s_method"
    by (simp add: run_simps)
  show ?thesis
    using parsers_without_new_bytes [OF p] p s by simp
qed

section \<open>The method of an accepted request line\<close>

text \<open>
  Claim C2. An accepted request line is said to set \<open>method\<close> to one of GET, HEAD, POST and
  UNKNOWN, "any other method token" giving UNKNOWN. The code sets UNKNOWN only in the
  \<^verbatim>\<open>default\<close> case of \<^verbatim>\<open>switch (p - m)\<close>: a method of three or four bytes that is not GET,
  POST or HEAD leaves \<open>method\<close> as it was. Here the line \<^verbatim>\<open>PUT / HTTP/1.1\<close> is accepted on a
  connection whose \<open>method\<close> field holds any value \<open>m\<close> (say \<open>HTTP_GET\<close> from the request
  before, on a kept-alive connection), and the field still holds \<open>m\<close> afterwards.
\<close>

theorem put_leaves_method_unset:
  "fst (http_parse_request_line
          (feed (conn0\<lparr>method_r := m\<rparr>) (''PUT / HTTP/1.1'' @ [CR, LF]))) = OK \<and>
   method_r (snd (http_parse_request_line
          (feed (conn0\<lparr>method_r := m\<rparr>) (''PUT / HTTP/1.1'' @ [CR, LF])))) = m"
  by (simp add: run_simps)

section \<open>The web root of the command line\<close>

text \<open>
  Claim C8. \<^verbatim>\<open>-r <dir>\<close> is said to set the web root. \<^verbatim>\<open>getopt\<close> is given \<^verbatim>\<open>"p:r:"\<close> and
  returns \<^verbatim>\<open>'r'\<close> for it, but the \<^verbatim>\<open>switch\<close> has its case at \<^verbatim>\<open>'w'\<close>: \<^verbatim>\<open>'r'\<close> falls to the
  default, and the configuration keeps \<^verbatim>\<open>./www\<close>.
\<close>

theorem parse_cmd_drops_r:
  "parse_cmd [''sehttpd'', ''-r'', ''/srv/site''] = Inr \<lparr>port = 8081, web_root = ''./www''\<rparr>"
  by (simp add: parse_cmd_def DEFAULT_PORT_def DEFAULT_WEBROOT_def)

section \<open>The length limit of URI resolution\<close>

lemma parse_uri_too_long_iff:
  "parse_uri webroot uri = Inl Uri_too_long \<longleftrightarrow> 256 < length uri"
  by (auto simp: parse_uri_def Let_def SHORTLINE_def drop_bit_eq_div split: option.splits)

lemma takeWhile_replicate_append:
  "P x \<Longrightarrow> takeWhile P (replicate n x @ ys) = replicate n x @ takeWhile P ys"
  by (induction n) auto

lemmas uri_simps =
  parse_uri_def Let_def SHORTLINE_def drop_bit_eq_div cstr_def strchr_idx_def strrchr_idx_def
  NUL_def size_t_of_int_def nth_append takeWhile_replicate_append

text \<open>
  Claim C5, as stated: a URI of exactly 256 bytes is rejected at resolution. It is not:
  the test is \<^verbatim>\<open>uri_length > (SHORTLINE >> 1)\<close>, and 256 is not greater than 256. The URI
  of a slash and 255 letters is resolved to a file name.
\<close>

theorem uri_of_256_bytes_resolved:
  "length (CHR ''/'' # replicate 255 (CHR ''a'')) = 256 \<and>
   parse_uri ''./www'' (CHR ''/'' # replicate 255 (CHR ''a'')) =
     Inr (''./www/'' @ replicate 255 (CHR ''a'') @ ''/index.html'') \<and>
   parse_uri ''./www'' (CHR ''/'' # replicate 255 (CHR ''a'')) \<noteq> Inl Uri_too_long"
  by (simp add: uri_simps)

text \<open>
  Claim C5, amended. \<open>parse_uri\<close> rejects a URI exactly when it is longer than 256 bytes:
  a URI of 257 bytes is rejected, one of 256 or of 255 bytes is not.
\<close>

theorem parse_uri_rejects_longer_than_256:
  "(parse_uri webroot uri = Inl Uri_too_long) = (256 < length uri)"
  by (rule parse_uri_too_long_iff)

section \<open>The keep-alive lines of a response\<close>

lemma print_int_500: "print_int 500 = ''500''"
  by (simp add: print_int_def print_nat.simps char_of_eq_iff take_bit_eq_mod)

lemma digit_not_CR: "k < 10 \<Longrightarrow> char_of (48 + k :: nat) \<noteq> CR"
proof -
  assume "k < 10"
  then have "(48 + k) mod 256 = 48 + k" by simp
  then show ?thesis using \<open>k < 10\<close> by (simp add: CR_def char_of_eq_iff take_bit_eq_mod)
qed

lemma CR_notin_print_nat: "CR \<notin> set (print_nat n)"
proof (induction n rule: print_nat.induct)
  case (1 n)
  show ?case
  proof (cases "n < 10")
    case True
    then show ?thesis using digit_not_CR [of n] by (auto simp: print_nat.simps [of n])
  next
    case False
    have "n mod 10 < 10" by simp
    then have "char_of (48 + n mod 10) \<noteq> CR" by (rule digit_not_CR)
    then show ?thesis using False "1.IH" by (auto simp: print_nat.simps [of n])
  qed
qed

lemma CR_notin_print_int: "CR \<notin> set (print_int i)"
  by (simp add: print_int_def CR_notin_print_nat) (simp add: CR_def)

lemma CR_notin_msg: "CR \<notin> set (get_msg_from_status s)"
  by (simp add: get_msg_from_status_def CR_def)

lemma CR_notin_file_type: "CR \<notin> set (get_file_type t)"
  by (simp add: get_file_type_def mime_def CR_def split: option.splits)

lemma split_crlf_line:
  "CR \<notin> set l \<Longrightarrow> split_crlf acc (l @ CR # LF # rest) = (rev acc @ l) # split_crlf [] rest"
proof (induction l arbitrary: acc)
  case Nil
  then show ?case by simp
next
  case (Cons a l)
  obtain b cs where bc: "l @ CR # LF # rest = b # cs" by (cases l) auto
  have "split_crlf acc ((a # l) @ CR # LF # rest) = split_crlf (a # acc) (l @ CR # LF # rest)"
    using Cons.prems by (auto simp: bc)
  also have "\<dots> = (rev (a # acc) @ l) # split_crlf [] rest"
    using Cons.prems by (intro Cons.IH) simp
  finally show ?case by simp
qed

lemma crlf_lines_terminated:
  "\<forall>l \<in> set ls. CR \<notin> set l \<Longrightarrow> crlf_lines (concat (map (\<lambda>l. l @ [CR, LF]) ls)) = ls"
proof (induction ls)
  case Nil
  then show ?case by (simp add: crlf_lines_def)
next
  case (Cons l ls)
  have "split_crlf [] (l @ CR # LF # concat (map (\<lambda>l. l @ [CR, LF]) ls)) =
        (rev [] @ l) # split_crlf [] (concat (map (\<lambda>l. l @ [CR, LF]) ls))"
    using Cons.prems by (intro split_crlf_line) simp
  then show ?case using Cons by (simp add: crlf_lines_def)
qed

lemma serve_static_header_lines:
  assumes "CR \<notin> set (date (mtime out))"
  shows "crlf_lines (hd (serve_static date content filename filesize out)) =
           [''HTTP/1.1 '' @ print_int (status out) @ '' '' @ get_msg_from_status (status out)]
           @ (if keep_alive out
              then [''Connection: keep-alive'', ''Keep-Alive: timeout=500''] else [])
           @ (if modified out
              then [''Content-type: '' @
                      get_file_type (map_option (\<lambda>i. drop i filename) (strrchr_idx filename CHR ''.'')),
                    ''Content-length: '' @ print_nat filesize,
                    ''Last-Modified: '' @ date (mtime out)]
              else [])
           @ [''Server: seHTTPd'', []]"
    (is "_ = ?L")
proof -
  have block: "hd (serve_static date content filename filesize out) =
               concat (map (\<lambda>l. l @ [CR, LF]) ?L)"
    by (simp add: serve_static_def serve_static_lines_def Let_def TIMEOUT_DEFAULT_def print_int_500)
  have "\<forall>l \<in> set ?L. CR \<notin> set l"
    using assms CR_notin_print_int CR_notin_msg CR_notin_file_type CR_notin_print_nat
    by (auto simp: CR_def)
  from crlf_lines_terminated [OF this] block show ?thesis by simp
qed

text \<open>
  Claim C7. The header block that \<open>serve_static\<close> hands to \<^verbatim>\<open>writen\<close>, cut into lines at its
  CR LF pairs, has the lines \<^verbatim>\<open>Connection: keep-alive\<close> and \<^verbatim>\<open>Keep-Alive: timeout=500\<close> when
  \<open>keep_alive\<close> is set and has neither of them when it is not, whatever the status, the file
  and its size. The date is what \<^verbatim>\<open>strftime\<close> prints, in which there is no CR.
\<close>

theorem serve_static_keep_alive_lines:
  assumes "CR \<notin> set (date (mtime out))"
  shows "(''Connection: keep-alive''
            \<in> set (crlf_lines (hd (serve_static date content filename filesize out))))
           = keep_alive out \<and>
         (''Keep-Alive: timeout=500''
            \<in> set (crlf_lines (hd (serve_static date content filename filesize out))))
           = keep_alive out"
  unfolding serve_static_header_lines [where date = date and out = out, OF assms] by auto

theorem serve_static_keep_alive_lines_witness:
  "CR \<notin> set ((\<lambda>t. ''Thu, 01 Jan 1970 00:16:40 GMT'')
               (mtime \<lparr>keep_alive = True, mtime = 1000, modified = True, status = 200\<rparr>)) \<and>
   hd (serve_static (\<lambda>t. ''Thu, 01 Jan 1970 00:16:40 GMT'') (\<lambda>f. ''hello'') ''./www/index.html'' 5
         \<lparr>keep_alive = True, mtime = 1000, modified = True, status = 200\<rparr>) =
     ''HTTP/1.1 200 OK'' @ [CR, LF] @ ''Connection: keep-alive'' @ [CR, LF] @
     ''Keep-Alive: timeout=500'' @ [CR, LF] @ ''Content-type: text/html'' @ [CR, LF] @
     ''Content-length: 5'' @ [CR, LF] @ ''Last-Modified: Thu, 01 Jan 1970 00:16:40 GMT'' @ [CR, LF] @
     ''Server: seHTTPd'' @ [CR, LF, CR, LF] \<and>
   ''Connection: keep-alive''
     \<in> set (crlf_lines (hd (serve_static (\<lambda>t. ''Thu, 01 Jan 1970 00:16:40 GMT'') (\<lambda>f. ''hello'')
                ''./www/index.html'' 5
                \<lparr>keep_alive = True, mtime = 1000, modified = True, status = 200\<rparr>))) \<and>
   ''Keep-Alive: timeout=500''
     \<in> set (crlf_lines (hd (serve_static (\<lambda>t. ''Thu, 01 Jan 1970 00:16:40 GMT'') (\<lambda>f. ''hello'')
                ''./www/index.html'' 5
                \<lparr>keep_alive = True, mtime = 1000, modified = True, status = 200\<rparr>))) \<and>
   ''Connection: keep-alive''
     \<notin> set (crlf_lines (hd (serve_static (\<lambda>t. ''Thu, 01 Jan 1970 00:16:40 GMT'') (\<lambda>f. ''hello'')
                ''./www/index.html'' 5
                \<lparr>keep_alive = False, mtime = 1000, modified = True, status = 200\<rparr>))) \<and>
   ''Keep-Alive: timeout=500''
     \<notin> set (crlf_lines (hd (serve_static (\<lambda>t. ''Thu, 01 Jan 1970 00:16:40 GMT'') (\<lambda>f. ''hello'')
                ''./www/index.html'' 5
                \<lparr>keep_alive = False, mtime = 1000, modified = True, status = 200\<rparr>)))"
proof -
  let ?date = "\<lambda>t :: int. ''Thu, 01 Jan 1970 00:16:40 GMT''"
  let ?on = "\<lparr>keep_alive = True, mtime = 1000, modified = True, status = 200\<rparr>"
  let ?off = "\<lparr>keep_alive = False, mtime = 1000, modified = True, status = 200\<rparr>"
  have d1: "CR \<notin> set (?date (mtime ?on))" by (simp add: CR_def)
  have d2: "CR \<notin> set (?date (mtime ?off))" by (simp add: CR_def)
  have block: "hd (serve_static ?date (\<lambda>f. ''hello'') ''./www/index.html'' 5 ?on) =
     ''HTTP/1.1 200 OK'' @ [CR, LF] @ ''Connection: keep-alive'' @ [CR, LF] @
     ''Keep-Alive: timeout=500'' @ [CR, LF] @ ''Content-type: text/html'' @ [CR, LF] @
     ''Content-length: 5'' @ [CR, LF] @ ''Last-Modified: Thu, 01 Jan 1970 00:16:40 GMT'' @ [CR, LF] @
     ''Server: seHTTPd'' @ [CR, LF, CR, LF]"
    by (simp add: serve_static_def serve_static_lines_def Let_def TIMEOUT_DEFAULT_def
          print_int_def print_nat.simps char_of_eq_iff take_bit_eq_mod get_msg_from_status_def
          HTTP_OK_def get_file_type_def mime_def strrchr_idx_def)
  show ?thesis
    using d1 block
      serve_static_keep_alive_lines [of ?date ?on "\<lambda>f. ''hello''" "''./www/index.html''" 5, OF d1]
      serve_static_keep_alive_lines [of ?date ?off "\<lambda>f. ''hello''" "''./www/index.html''" 5, OF d2]
    by simp
qed

section \<open>Comparing the bytes of a header with a literal\<close>

lemma tolower_NUL: "tolower c = NUL \<longleftrightarrow> c = NUL"
proof -
  have "char_of (of_char c + (32 :: nat)) \<noteq> NUL"
    if "65 \<le> (of_char c :: nat)" "(of_char c :: nat) \<le> 90"
  proof -
    have "(of_char c + 32 :: nat) mod 256 = of_char c + 32" using that by simp
    then show ?thesis using that by (simp add: NUL_def char_of_eq_iff take_bit_eq_mod)
  qed
  then show ?thesis
    by (auto simp: tolower_def less_eq_char_def NUL_def)
qed

lemma length_bytes_at: "length (bytes_at mem a n) = n"
  by (induction n arbitrary: a) auto

lemma strncasecmp_eq_bytes:
  "NUL \<notin> set (bytes_at mem a n) \<Longrightarrow>
   strncasecmp_eq lit mem a n \<longleftrightarrow>
     n \<le> length lit \<and> map tolower (bytes_at mem a n) = map tolower (take n lit)"
proof (induction lit arbitrary: a n)
  case Nil
  then show ?case by (cases n) (auto simp: tolower_NUL)
next
  case (Cons c cs)
  then show ?case by (cases n) auto
qed

lemma ci_prefix_no_NUL:
  assumes "ci_prefix v lit" "NUL \<notin> set lit"
  shows "NUL \<notin> set v"
proof
  assume "NUL \<in> set v"
  then have "tolower NUL \<in> tolower ` set v" by (rule imageI)
  moreover have "tolower ` set v = tolower ` set (take (length v) lit)"
  proof -
    have "map tolower v = map tolower (take (length v) lit)"
      using assms(1) by (simp add: ci_prefix_def)
    then have "set (map tolower v) = set (map tolower (take (length v) lit))"
      by (rule arg_cong)
    then show ?thesis by (simp only: set_map)
  qed
  ultimately obtain c where "c \<in> set (take (length v) lit)" "tolower c = tolower NUL" by auto
  then have "NUL \<in> set lit"
    using tolower_NUL [of c] tolower_NUL [of NUL] by (auto dest: in_set_takeD)
  with assms(2) show False by simp
qed

lemma size_t_of_int_nat: "n < 2 ^ 64 \<Longrightarrow> size_t_of_int (int n) = n"
  by (simp add: size_t_of_int_def)

lemma strncasecmp_eq_NUL:
  "NUL \<in> set (bytes_at mem a n) \<Longrightarrow> NUL \<notin> set lit \<Longrightarrow>
   strncasecmp_eq lit mem a n \<longleftrightarrow>
     map tolower (cstr (bytes_at mem a n)) = map tolower lit"
proof (induction lit arbitrary: a n)
  case Nil
  then show ?case by (cases n) (auto simp: tolower_NUL cstr_def)
next
  case (Cons c cs)
  then obtain m where n: "n = Suc m" by (cases n) auto
  show ?case
  proof (cases "mem a = NUL")
    case True
    then show ?thesis using Cons.prems n tolower_NUL [of c] tolower_NUL [of NUL]
      by (auto simp: cstr_def)
  next
    case False
    then have "NUL \<in> set (bytes_at mem (a + 1) m)" using Cons.prems(1) n by auto
    from Cons.IH [OF this] Cons.prems(2) False n show ?thesis
      by (auto simp: cstr_def)
  qed
qed

lemma tolower_keep_alive: "map tolower ''keep-alive'' = ''keep-alive''"
  by (simp add: tolower_def less_eq_char_def)

lemma bytes_at_numeral:
  "bytes_at mem a (numeral k) = mem a # bytes_at mem (a + 1) (pred_numeral k)"
  by (simp add: numeral_eq_Suc)

lemmas value_simps =
  ci_prefix_def tolower_def less_eq_char_def NUL_def char_of_eq_iff take_bit_eq_mod
  bytes_at_numeral cstr_def

section \<open>Header dispatch\<close>

lemma eq_char_of_iff: "c = char_of (n :: nat) \<longleftrightarrow> take_bit 8 n = of_char c"
  using char_of_eq_iff [of n c] by auto

lemmas dispatch_simps =
  handle_one_header_def http_headers_in_def size_t_of_int_def bytes_at_numeral
  http_handle_header_def header_key_def header_value_def

text \<open>
  Claim C6, as stated: header names are matched without regard to letter case. They are
  not: \<^verbatim>\<open>http_handle_header\<close> compares with \<^verbatim>\<open>strncmp\<close>. The request below carries the
  header \<^verbatim>\<open>connection: keep-alive\<close>, whose name equals \<^verbatim>\<open>Connection\<close> when case is
  ignored; both parsers accept it, and dispatch leaves \<open>out\<close> untouched, where the handler of
  \<^verbatim>\<open>Connection\<close> on that value would have set \<open>keep_alive\<close>.
\<close>

theorem lowercase_connection_not_dispatched:
  "(case http_parse_request_body True
           (snd (http_parse_request_line
              (feed conn0 (''GET / HTTP/1.1'' @ [CR, LF] @ ''connection: keep-alive'' @ [CR, LF, CR, LF])))) of
      None \<Rightarrow> False
    | Some (rc, r) \<Rightarrow>
        rc = OK \<and>
        map (header_key (buf r)) (list r) = [''connection''] \<and>
        map (header_value (buf r)) (list r) = [''keep-alive''] \<and>
        map tolower ''connection'' = map tolower ''Connection'' \<and>
        http_handle_header (\<lambda>mem a. None) r (init_http_out (malloc_out env0)) =
          Some (r\<lparr>list := []\<rparr>, init_http_out (malloc_out env0)) \<and>
        \<not> keep_alive (init_http_out (malloc_out env0)) \<and>
        keep_alive (call_handler (\<lambda>mem a. None) Fn_connection (init_http_out (malloc_out env0))
                      (buf r) 28 10))"
  by (simp add: run_simps dispatch_simps env0_def init_http_out_def tolower_def less_eq_char_def
        char_of_eq_iff eq_char_of_iff take_bit_eq_mod http_process_connection_def)

lemma lookup_Host:
  "bytes_at mem ks 4 = ''Host'' \<Longrightarrow> header_lookup mem ks 4 http_headers_in = Some Fn_ignore"
  by (simp add: http_headers_in_def bytes_at_numeral)

lemma lookup_Connection:
  "bytes_at mem ks 10 = ''Connection'' \<Longrightarrow>
   header_lookup mem ks 10 http_headers_in = Some Fn_connection"
  by (simp add: http_headers_in_def bytes_at_numeral)

lemma lookup_If_Modified_Since:
  "bytes_at mem ks 17 = ''If-Modified-Since'' \<Longrightarrow>
   header_lookup mem ks 17 http_headers_in = Some Fn_if_modified_since"
  by (simp add: http_headers_in_def bytes_at_numeral)

lemma header_lookup_exact:
  assumes "(name, f) \<in> set http_headers_in" "name \<noteq> []"
    and "bytes_at mem ks (length name) = name"
  shows "header_lookup mem ks (length name) http_headers_in = Some f"
proof -
  consider "name = ''Host''" "f = Fn_ignore"
    | "name = ''Connection''" "f = Fn_connection"
    | "name = ''If-Modified-Since''" "f = Fn_if_modified_since"
    using assms(1,2) by (auto simp: http_headers_in_def)
  then show ?thesis
  proof cases
    case 1
    have l: "length name = 4" using 1 by simp
    from assms(3) have "bytes_at mem ks 4 = name" by (simp only: l)
    then have "bytes_at mem ks 4 = ''Host''" by (simp only: 1)
    then show ?thesis by (simp only: l 1(2) lookup_Host)
  next
    case 2
    have l: "length name = 10" using 2 by simp
    from assms(3) have "bytes_at mem ks 10 = name" by (simp only: l)
    then have "bytes_at mem ks 10 = ''Connection''" by (simp only: 2)
    then show ?thesis by (simp only: l 2(2) lookup_Connection)
  next
    case 3
    have l: "length name = 17" using 3 by simp
    from assms(3) have "bytes_at mem ks 17 = name" by (simp only: l)
    then have "bytes_at mem ks 17 = ''If-Modified-Since''" by (simp only: 3)
    then show ?thesis by (simp only: l 3(2) lookup_If_Modified_Since)
  qed
qed

lemma strncmp_eq_length:
  "strncmp_eq mem a name (length name) \<longleftrightarrow> bytes_at mem a (length name) = name"
  by (induction name arbitrary: a) auto

lemma strncmp_eq_hd:
  "strncmp_eq mem a name n \<Longrightarrow> 0 < n \<Longrightarrow> name \<noteq> [] \<Longrightarrow> mem a = hd name"
  by (cases name) auto

lemma tolower_initials:
  "tolower CHR ''H'' = CHR ''h''" "tolower CHR ''C'' = CHR ''c''" "tolower CHR ''I'' = CHR ''i''"
  by (simp_all add: tolower_def less_eq_char_def char_of_eq_iff take_bit_eq_mod)

lemma case_variant_not_matched:
  assumes "(name, f) \<in> set http_headers_in" and "name \<noteq> []"
    and "bytes_at mem ks (length name) \<noteq> name"
    and "map tolower (bytes_at mem ks (length name)) = map tolower name"
  shows "header_lookup mem ks (length name) http_headers_in = None"
proof -
  let ?n = "length name"
  have n: "0 < ?n" using assms(2) by simp
  obtain c cs where name: "name = c # cs" using assms(2) by (cases name) auto
  have first: "tolower (mem ks) = tolower (hd name)"
    using assms(4) by (simp add: name)
  have same: "\<not> strncmp_eq mem ks name ?n"
    using assms(3) by (simp only: strncmp_eq_length) simp
  have other: "\<not> strncmp_eq mem ks name' ?n"
    if "name' \<noteq> []" and "tolower (hd name') \<noteq> tolower (hd name)" for name'
  proof
    assume "strncmp_eq mem ks name' ?n"
    from strncmp_eq_hd [OF this n that(1)] first that(2) show False by simp
  qed
  consider "name = ''Host''" | "name = ''Connection''" | "name = ''If-Modified-Since''"
    using assms(1,2) by (auto simp: http_headers_in_def)
  then show ?thesis
  proof cases
    case 1
    have "\<not> strncmp_eq mem ks ''Host'' ?n" using same 1 by simp
    moreover have "\<not> strncmp_eq mem ks ''Connection'' ?n"
      by (rule other) (simp_all add: 1 tolower_initials)
    moreover have "\<not> strncmp_eq mem ks ''If-Modified-Since'' ?n"
      by (rule other) (simp_all add: 1 tolower_initials)
    ultimately show ?thesis by (simp add: http_headers_in_def)
  next
    case 2
    have "\<not> strncmp_eq mem ks ''Connection'' ?n" using same 2 by simp
    moreover have "\<not> strncmp_eq mem ks ''Host'' ?n"
      by (rule other) (simp_all add: 2 tolower_initials)
    moreover have "\<not> strncmp_eq mem ks ''If-Modified-Since'' ?n"
      by (rule other) (simp_all add: 2 tolower_initials)
    ultimately show ?thesis by (simp add: http_headers_in_def)
  next
    case 3
    have "\<not> strncmp_eq mem ks ''If-Modified-Since'' ?n" using same 3 by simp
    moreover have "\<not> strncmp_eq mem ks ''Host'' ?n"
      by (rule other) (simp_all add: 3 tolower_initials)
    moreover have "\<not> strncmp_eq mem ks ''Connection'' ?n"
      by (rule other) (simp_all add: 3 tolower_initials)
    ultimately show ?thesis by (simp add: http_headers_in_def)
  qed
qed

text \<open>
  Claim C6, amended. Dispatch matches header names byte for byte, letter case included. For
  every parsed header whose name lies in the array without wrapping around the end of the
  ring (it is the bytes from \<open>key_start\<close> up to \<open>key_end\<close>) and is equal to the name of a
  table entry (\<^verbatim>\<open>Host\<close>, \<^verbatim>\<open>Connection\<close>, \<^verbatim>\<open>If-Modified-Since\<close>), the handler of that entry is
  called on the header's value, that is on its address and length. A header whose name is
  that of an entry in another letter case is matched by no entry: no handler is called and
  \<open>out\<close> stays as it was.
\<close>

theorem header_dispatch_exact_name:
  assumes "(name, f) \<in> set http_headers_in" and "name \<noteq> []"
    and "key_start h = Addr ks" and "key_end h = Addr ke"
  shows "(header_key mem h = name \<and> value_start h = Addr vs \<and> value_end h = Addr ve \<longrightarrow>
            handle_one_header tm mem h out = Some (call_handler tm f out mem vs (ve - vs))) \<and>
         (header_key mem h \<noteq> name \<and> map tolower (header_key mem h) = map tolower name \<longrightarrow>
            handle_one_header tm mem h out = Some out)"
proof -
  have bound: "length name < 2 ^ 64"
    using assms(1) by (auto simp: http_headers_in_def)
  have key: "header_key mem h = bytes_at mem ks (nat (ke - ks))"
    using assms(3,4) by (simp add: header_key_def)
  have n: "size_t_of_int (ke - ks) = length name \<and> nat (ke - ks) = length name"
    if "length (header_key mem h) = length name"
  proof -
    have len: "nat (ke - ks) = length name"
      using that key by (simp add: length_bytes_at)
    then have "ke - ks = int (length name)"
      using assms(2) by (cases "ke - ks \<le> 0") auto
    then show ?thesis using bound len by (simp add: size_t_of_int_nat)
  qed
  have pos: "handle_one_header tm mem h out = Some (call_handler tm f out mem vs (ve - vs))"
    if "header_key mem h = name" "value_start h = Addr vs" "value_end h = Addr ve"
  proof -
    from n that(1) have m: "size_t_of_int (ke - ks) = length name" "nat (ke - ks) = length name"
      by simp_all
    have "header_lookup mem ks (length name) http_headers_in = Some f"
      using header_lookup_exact [OF assms(1,2)] key that(1) m by simp
    then show ?thesis
      using assms(3,4) that(2,3) m by (simp add: handle_one_header_def)
  qed
  have neg: "handle_one_header tm mem h out = Some out"
    if "header_key mem h \<noteq> name" "map tolower (header_key mem h) = map tolower name"
  proof -
    have "length (map tolower (header_key mem h)) = length (map tolower name)"
      using that(2) by simp
    then have "length (header_key mem h) = length name" by simp
    with n have m: "size_t_of_int (ke - ks) = length name" "nat (ke - ks) = length name"
      by simp_all
    have "header_lookup mem ks (length name) http_headers_in = None"
      using case_variant_not_matched [OF assms(1,2)] key that m by simp
    then show ?thesis
      using assms(3,4) m by (simp add: handle_one_header_def)
  qed
  from pos neg show ?thesis by blast
qed

theorem header_dispatch_exact_name_witness:
  "(''Connection'', Fn_connection) \<in> set http_headers_in \<and>
   header_key (store (\<lambda>_. NUL) 0 ''Connection: keep-alive'')
     \<lparr>key_start = Addr 0, key_end = Addr 10, value_start = Addr 12, value_end = Addr 22\<rparr>
     = ''Connection'' \<and>
   handle_one_header (\<lambda>mem a. None) (store (\<lambda>_. NUL) 0 ''Connection: keep-alive'')
     \<lparr>key_start = Addr 0, key_end = Addr 10, value_start = Addr 12, value_end = Addr 22\<rparr>
     \<lparr>keep_alive = False, mtime = 0, modified = True, status = 0\<rparr>
     = Some \<lparr>keep_alive = True, mtime = 0, modified = True, status = 0\<rparr> \<and>
   header_key (store (\<lambda>_. NUL) 0 ''connection: keep-alive'')
     \<lparr>key_start = Addr 0, key_end = Addr 10, value_start = Addr 12, value_end = Addr 22\<rparr>
     = ''connection'' \<and>
   map tolower ''connection'' = map tolower ''Connection'' \<and>
   handle_one_header (\<lambda>mem a. None) (store (\<lambda>_. NUL) 0 ''connection: keep-alive'')
     \<lparr>key_start = Addr 0, key_end = Addr 10, value_start = Addr 12, value_end = Addr 22\<rparr>
     \<lparr>keep_alive = False, mtime = 0, modified = True, status = 0\<rparr>
     = Some \<lparr>keep_alive = False, mtime = 0, modified = True, status = 0\<rparr>"
proof -
  let ?h = "\<lparr>key_start = Addr 0, key_end = Addr 10, value_start = Addr 12, value_end = Addr 22\<rparr>"
  let ?out = "\<lparr>keep_alive = False, mtime = 0, modified = True, status = 0\<rparr>"
  have t: "(''Connection'', Fn_connection) \<in> set http_headers_in"
    by (simp add: http_headers_in_def)
  have ne: "''Connection'' \<noteq> []" by simp
  have ks: "key_start ?h = Addr 0" and ke: "key_end ?h = Addr 10" by simp_all
  have k: "header_key (store (\<lambda>_. NUL) 0 ''Connection: keep-alive'') ?h = ''Connection''"
    by (simp add: header_key_def bytes_at_numeral)
  have k': "header_key (store (\<lambda>_. NUL) 0 ''connection: keep-alive'') ?h = ''connection''"
    by (simp add: header_key_def bytes_at_numeral)
  have lower: "map tolower ''connection'' = map tolower ''Connection''"
    by (simp add: tolower_def less_eq_char_def char_of_eq_iff eq_char_of_iff take_bit_eq_mod)
  have v: "call_handler (\<lambda>mem a. None) Fn_connection ?out
             (store (\<lambda>_. NUL) 0 ''Connection: keep-alive'') 12 (22 - 12)
           = \<lparr>keep_alive = True, mtime = 0, modified = True, status = 0\<rparr>"
    by (simp add: http_process_connection_def size_t_of_int_def tolower_def less_eq_char_def
          char_of_eq_iff eq_char_of_iff take_bit_eq_mod NUL_def)
  have a: "handle_one_header (\<lambda>mem a. None) (store (\<lambda>_. NUL) 0 ''Connection: keep-alive'') ?h ?out
           = Some \<lparr>keep_alive = True, mtime = 0, modified = True, status = 0\<rparr>"
    using header_dispatch_exact_name [OF t ne ks ke,
        of "store (\<lambda>_. NUL) 0 ''Connection: keep-alive''" 12 22 "\<lambda>mem a. None" ?out] k v
    by simp
  have b: "handle_one_header (\<lambda>mem a. None) (store (\<lambda>_. NUL) 0 ''connection: keep-alive'') ?h ?out
           = Some ?out"
    using header_dispatch_exact_name [OF t ne ks ke,
        of "store (\<lambda>_. NUL) 0 ''connection: keep-alive''" 12 22 "\<lambda>mem a. None" ?out] k' lower
    by simp
  show ?thesis using t k k' lower a b by (simp only: simp_thms)
qed

section \<open>The handler of the Connection header\<close>

text \<open>
  Claim C10, as stated: \<open>keep_alive\<close> is left unchanged for any value whose first \<open>len\<close> bytes
  differ from \<^verbatim>\<open>keep-alive\<close>. \<^verbatim>\<open>strncasecmp\<close> compares C strings and stops at a NUL byte, and
  the header parser lets a NUL through in a value. The request below carries the header
  \<^verbatim>\<open>Connection\<close> with the twelve bytes \<^verbatim>\<open>keep-alive\<close>, NUL, \<^verbatim>\<open>x\<close> as its value: they are
  no prefix of \<^verbatim>\<open>keep-alive\<close>, and the handler sets \<open>keep_alive\<close>.
\<close>

theorem nul_in_connection_value:
  "(case http_parse_request_body True
           (snd (http_parse_request_line
              (feed conn0 (''GET / HTTP/1.1'' @ [CR, LF] @
                           ''Connection: keep-alive'' @ [NUL] @ ''x'' @ [CR, LF, CR, LF])))) of
      None \<Rightarrow> False
    | Some (rc, r) \<Rightarrow>
        rc = OK \<and>
        map (header_key (buf r)) (list r) = [''Connection''] \<and>
        map (header_value (buf r)) (list r) = [''keep-alive'' @ [NUL] @ ''x''] \<and>
        bytes_at (buf r) 28 12 = ''keep-alive'' @ [NUL] @ ''x'' \<and>
        \<not> ci_prefix (bytes_at (buf r) 28 12) ''keep-alive'' \<and>
        \<not> keep_alive (init_http_out (malloc_out env0)) \<and>
        keep_alive (http_process_connection (init_http_out (malloc_out env0)) (buf r) 28 12) \<and>
        map_option (\<lambda>x. keep_alive (snd x))
          (http_handle_header (\<lambda>mem a. None) r (init_http_out (malloc_out env0))) = Some True)"
  by (simp add: run_simps dispatch_simps env0_def init_http_out_def tolower_def less_eq_char_def
        char_of_eq_iff eq_char_of_iff take_bit_eq_mod http_process_connection_def ci_prefix_def)

text \<open>
  Claim C10, amended. The handler compares only \<open>len\<close> bytes, without regard to letter case:
  a value that is a case-insensitive prefix of \<^verbatim>\<open>keep-alive\<close> sets \<open>keep_alive\<close>, the whole token
  or not, and a value without a NUL byte that is no such prefix leaves \<open>out\<close> as it was. For a
  value with a NUL among its \<open>len\<close> bytes the bytes before the first NUL are compared with the
  whole token: \<open>keep_alive\<close> is set when they are \<^verbatim>\<open>keep-alive\<close> in some letter case, and \<open>out\<close>
  is left as it was otherwise.
\<close>

theorem connection_value_prefix:
  assumes "n < 2 ^ 64"
  shows "(ci_prefix (bytes_at mem data n) ''keep-alive'' \<longrightarrow>
            http_process_connection out mem data (int n) = out\<lparr>keep_alive := True\<rparr>) \<and>
         (\<not> ci_prefix (bytes_at mem data n) ''keep-alive'' \<and> NUL \<notin> set (bytes_at mem data n) \<longrightarrow>
            http_process_connection out mem data (int n) = out) \<and>
         (NUL \<in> set (bytes_at mem data n) \<longrightarrow>
            http_process_connection out mem data (int n) =
              (if map tolower (cstr (bytes_at mem data n)) = ''keep-alive''
               then out\<lparr>keep_alive := True\<rparr> else out))"
proof -
  have "NUL \<notin> set (bytes_at mem data n)" if "ci_prefix (bytes_at mem data n) ''keep-alive''"
    using ci_prefix_no_NUL [OF that] by (simp add: NUL_def)
  then have "(ci_prefix (bytes_at mem data n) ''keep-alive'' \<longrightarrow>
            http_process_connection out mem data (int n) = out\<lparr>keep_alive := True\<rparr>) \<and>
         (\<not> ci_prefix (bytes_at mem data n) ''keep-alive'' \<and> NUL \<notin> set (bytes_at mem data n) \<longrightarrow>
            http_process_connection out mem data (int n) = out)"
    using assms strncasecmp_eq_bytes [of mem data n "''keep-alive''"]
    by (auto simp: http_process_connection_def size_t_of_int_nat ci_prefix_def length_bytes_at)
  moreover have "http_process_connection out mem data (int n) =
              (if map tolower (cstr (bytes_at mem data n)) = ''keep-alive''
               then out\<lparr>keep_alive := True\<rparr> else out)"
    if "NUL \<in> set (bytes_at mem data n)"
  proof -
    have "NUL \<notin> set ''keep-alive''" by (simp add: NUL_def)
    from strncasecmp_eq_NUL [OF that this] assms show ?thesis
      by (simp only: http_process_connection_def size_t_of_int_nat tolower_keep_alive)
  qed
  ultimately show ?thesis by blast
qed

theorem connection_value_prefix_witness:
  "(4 :: nat) < 2 ^ 64 \<and>
   ci_prefix (bytes_at (store (\<lambda>_. NUL) 0 ''KEEP'') 0 4) ''keep-alive'' \<and>
   keep_alive (http_process_connection \<lparr>keep_alive = False, mtime = 0, modified = True, status = 0\<rparr>
                 (store (\<lambda>_. NUL) 0 ''KEEP'') 0 (int 4)) \<and>
   ci_prefix (bytes_at (store (\<lambda>_. NUL) 0 ''K'') 0 1) ''keep-alive'' \<and>
   keep_alive (http_process_connection \<lparr>keep_alive = False, mtime = 0, modified = True, status = 0\<rparr>
                 (store (\<lambda>_. NUL) 0 ''K'') 0 (int 1)) \<and>
   ci_prefix (bytes_at (store (\<lambda>_. NUL) 0 ''x'') 0 0) ''keep-alive'' \<and>
   keep_alive (http_process_connection \<lparr>keep_alive = False, mtime = 0, modified = True, status = 0\<rparr>
                 (store (\<lambda>_. NUL) 0 ''x'') 0 (int 0)) \<and>
   \<not> ci_prefix (bytes_at (store (\<lambda>_. NUL) 0 ''close'') 0 5) ''keep-alive'' \<and>
   NUL \<notin> set (bytes_at (store (\<lambda>_. NUL) 0 ''close'') 0 5) \<and>
   \<not> keep_alive (http_process_connection \<lparr>keep_alive = False, mtime = 0, modified = True, status = 0\<rparr>
                 (store (\<lambda>_. NUL) 0 ''close'') 0 (int 5)) \<and>
   NUL \<in> set (bytes_at (store (\<lambda>_. NUL) 0 ''keep'') 0 5) \<and>
   \<not> keep_alive (http_process_connection \<lparr>keep_alive = False, mtime = 0, modified = True, status = 0\<rparr>
                 (store (\<lambda>_. NUL) 0 ''keep'') 0 (int 5))"
proof -
  have a: "ci_prefix (bytes_at (store (\<lambda>_. NUL) 0 ''KEEP'') 0 4) ''keep-alive''"
    by (simp add: value_simps)
  have b: "ci_prefix (bytes_at (store (\<lambda>_. NUL) 0 ''K'') 0 1) ''keep-alive''"
    by (simp add: value_simps)
  have c: "ci_prefix (bytes_at (store (\<lambda>_. NUL) 0 ''x'') 0 0) ''keep-alive''"
    by (simp add: value_simps)
  have d: "\<not> ci_prefix (bytes_at (store (\<lambda>_. NUL) 0 ''close'') 0 5) ''keep-alive'' \<and>
           NUL \<notin> set (bytes_at (store (\<lambda>_. NUL) 0 ''close'') 0 5)"
    by (simp add: value_simps)
  have e: "NUL \<in> set (bytes_at (store (\<lambda>_. NUL) 0 ''keep'') 0 5) \<and>
           map tolower (cstr (bytes_at (store (\<lambda>_. NUL) 0 ''keep'') 0 5)) \<noteq> ''keep-alive''"
    by (simp add: value_simps)
  show ?thesis
    using a b c d e
      connection_value_prefix [of 4 "store (\<lambda>_. NUL) 0 ''KEEP''" 0
        "\<lparr>keep_alive = False, mtime = 0, modified = True, status = 0\<rparr>"]
      connection_value_prefix [of 1 "store (\<lambda>_. NUL) 0 ''K''" 0
        "\<lparr>keep_alive = False, mtime = 0, modified = True, status = 0\<rparr>"]
      connection_value_prefix [of 0 "store (\<lambda>_. NUL) 0 ''x''" 0
        "\<lparr>keep_alive = False, mtime = 0, modified = True, status = 0\<rparr>"]
      connection_value_prefix [of 5 "store (\<lambda>_. NUL) 0 ''close''" 0
        "\<lparr>keep_alive = False, mtime = 0, modified = True, status = 0\<rparr>"]
      connection_value_prefix [of 5 "store (\<lambda>_. NUL) 0 ''keep''" 0
        "\<lparr>keep_alive = False, mtime = 0, modified = True, status = 0\<rparr>"]
    by simp
qed

section \<open>What the parsers leave alone\<close>







section \<open>The ring-buffer invariant of the driver\<close>


















section \<open>What a step and a run of the request-line parser establish\<close>



section \<open>Feeding the ring\<close>







section \<open>A step on another frame\<close>







section \<open>The request-line loop on another frame\<close>







section \<open>Chunked and single-shot runs of the request-line parser\<close>







section \<open>The result of the request-line parser\<close>





section \<open>Chunked and single-shot runs of the header parser\<close>






section \<open>Resuming a parser gives the single-shot result\<close>




end
